theory Spec2Isabelle
  imports Main
begin

section \<open>The settings store (src/src/SettingsContext.tsx)\<close>

subsection \<open>Awaited calls and the key-value storage\<close>

text \<open>
  Every call of \<^verbatim>\<open>AsyncStorage\<close> returns a promise that the code awaits. An awaited
  promise either rejects (the \<^verbatim>\<open>await\<close> throws) or resolves with a value.
\<close>

datatype 'a awaited = Rejected | Resolved 'a

text \<open>
  The storage maps string keys to string values. Whether a call succeeds is decided by the
  device, so each call takes the outcome as an argument (\<open>ok\<close>). A rejected write leaves
  the stored entries as they were.
\<close>

type_synonym storage = "string \<rightharpoonup> string"

definition getItem :: "bool \<Rightarrow> string \<Rightarrow> storage \<Rightarrow> string option awaited" where
  "getItem ok key d = (if ok then Resolved (d key) else Rejected)"

definition setItem :: "bool \<Rightarrow> string \<Rightarrow> string \<Rightarrow> storage \<Rightarrow> storage awaited" where
  "setItem ok key v d = (if ok then Resolved (d(key \<mapsto> v)) else Rejected)"

definition multiRemove :: "bool \<Rightarrow> string list \<Rightarrow> storage \<Rightarrow> storage awaited" where
  "multiRemove ok keys d = (if ok then Resolved (fold (\<lambda>k m. m(k := None)) keys d) else Rejected)"

text \<open>
  \<^verbatim>\<open>JSON.stringify\<close> and \<^verbatim>\<open>JSON.parse\<close> belong to the language runtime and are taken as
  a pair of functions. The store stringifies lists of ids only. \<open>JSON_parse\<close> yields
  \<open>None\<close> where the runtime throws a syntax error, and otherwise any JSON value: the
  text \<^verbatim>\<open>null\<close> parses to \<^verbatim>\<open>null\<close>, a number to a number (kept as its text), and so on.
\<close>

datatype json_value =
    JNull
  | JBool bool
  | JNumber string
  | JString string
  | JArray "json_value list"
  | JObject "(string \<times> json_value) list"

record json =
  JSON_stringify :: "string list \<Rightarrow> string"
  JSON_parse :: "string \<Rightarrow> json_value option"

text \<open>The value is an array of strings, which is what the selection cell is declared to hold.\<close>

fun strings_of :: "json_value list \<Rightarrow> string list option" where
  "strings_of [] = Some []"
| "strings_of (JString s # vs) = map_option ((#) s) (strings_of vs)"
| "strings_of (_ # vs) = None"

fun as_ids :: "json_value \<Rightarrow> string list option" where
  "as_ids (JArray vs) = strings_of vs"
| "as_ids _ = None"

subsection \<open>The provider's state\<close>

text \<open>The five \<^verbatim>\<open>useState\<close> cells of \<^verbatim>\<open>SettingsProvider\<close>, with their declared types.\<close>

record settings =
  isLoading :: bool
  isPinSet :: bool
  pin :: "string option"
  restrictedMode :: bool
  selectedVideos :: "string list"

definition initial_settings :: settings where
  "initial_settings =
     \<lparr>isLoading = True, isPinSet = False, pin = None, restrictedMode = False,
      selectedVideos = []\<rparr>"

text \<open>The provider's state together with the device storage it writes through to.\<close>

record world =
  mem :: settings
  disk :: storage

text \<open>What a call of an \<^verbatim>\<open>async\<close> function gives its caller.\<close>

datatype 'a outcome = Throws | Returns 'a

subsection \<open>loadSettings\<close>

text \<open>
  \<^verbatim>\<open>setSelectedVideos(JSON.parse(storedVideos))\<close> stores whatever the text parses to,
  unchecked. The loader's result therefore has two parts: \<open>cells\<close>, the five cells as
  far as they hold values of their declared types, and \<open>selectedVideos_cell\<close>, which is
  \<open>Some j\<close> when the selection cell was given the parsed value \<open>j\<close> that is not an
  array of strings (the \<open>selectedVideos\<close> of \<open>cells\<close> is then not what the cell holds).
\<close>

record loaded =
  cells :: settings
  selectedVideos_cell :: "json_value option"

text \<open>
  The body of the \<^verbatim>\<open>try\<close> block. The three reads happen in order; a state update made
  before a later read throws is kept. \<^verbatim>\<open>if (storedPin)\<close> and \<^verbatim>\<open>storedVideos ? ... : []\<close>
  test truthiness: \<^verbatim>\<open>null\<close> and the empty string are both falsy.
\<close>

record reads =
  pinRead :: bool
  modeRead :: bool
  videosRead :: bool

definition loadSettings_try :: "json \<Rightarrow> reads \<Rightarrow> storage \<Rightarrow> settings \<Rightarrow> unit outcome \<times> loaded" where
  "loadSettings_try J r d s =
     (case getItem (pinRead r) ''parentPin'' d of
        Rejected \<Rightarrow> (Throws, \<lparr>cells = s, selectedVideos_cell = None\<rparr>)
      | Resolved storedPin \<Rightarrow>
          let s1 = (case storedPin of
                      None \<Rightarrow> s
                    | Some p \<Rightarrow> if p \<noteq> [] then s\<lparr>pin := Some p, isPinSet := True\<rparr> else s)
          in (case getItem (modeRead r) ''restrictedMode'' d of
                Rejected \<Rightarrow> (Throws, \<lparr>cells = s1, selectedVideos_cell = None\<rparr>)
              | Resolved storedMode \<Rightarrow>
                  let s2 = s1\<lparr>restrictedMode := (storedMode = Some ''true'')\<rparr>;
                      empty = \<lparr>cells = s2\<lparr>selectedVideos := []\<rparr>, selectedVideos_cell = None\<rparr>
                  in (case getItem (videosRead r) ''selectedVideos'' d of
                        Rejected \<Rightarrow> (Throws, \<lparr>cells = s2, selectedVideos_cell = None\<rparr>)
                      | Resolved storedVideos \<Rightarrow>
                          (case storedVideos of
                             None \<Rightarrow> (Returns (), empty)
                           | Some v \<Rightarrow>
                               if v = [] then (Returns (), empty)
                               else (case JSON_parse J v of
                                       None \<Rightarrow> (Throws, \<lparr>cells = s2, selectedVideos_cell = None\<rparr>)
                                     | Some j \<Rightarrow>
                                         (case as_ids j of
                                            Some ids \<Rightarrow>
                                              (Returns (),
                                               \<lparr>cells = s2\<lparr>selectedVideos := ids\<rparr>,
                                                selectedVideos_cell = None\<rparr>)
                                          | None \<Rightarrow>
                                              (Returns (),
                                               \<lparr>cells = s2, selectedVideos_cell = Some j\<rparr>)))))))"

text \<open>
  \<^verbatim>\<open>catch\<close> logs and swallows the exception; \<^verbatim>\<open>finally\<close> clears the loading flag on
  both paths.
\<close>

definition loadSettings :: "json \<Rightarrow> reads \<Rightarrow> storage \<Rightarrow> settings \<Rightarrow> unit outcome \<times> loaded" where
  "loadSettings J r d s =
     (case loadSettings_try J r d s of
        (Throws, l) \<Rightarrow> (Returns (), l\<lparr>cells := (cells l)\<lparr>isLoading := False\<rparr>\<rparr>)
      | (Returns u, l) \<Rightarrow> (Returns u, l\<lparr>cells := (cells l)\<lparr>isLoading := False\<rparr>\<rparr>))"

text \<open>
  The effect runs \<^verbatim>\<open>loadSettings\<close> once, when the provider mounts: a launch of the app
  starts from the initial state and loads from the storage the previous session left.
  A world has the cells with their declared types, so \<open>launch\<close> keeps \<open>cells\<close>; what
  it says about the PIN, the PIN flag and the restricted mode holds in every case, what
  it says about the selection holds when \<open>selectedVideos_cell\<close> is \<open>None\<close>.
\<close>

definition launch :: "json \<Rightarrow> reads \<Rightarrow> storage \<Rightarrow> world" where
  "launch J r d = \<lparr>mem = cells (snd (loadSettings J r d initial_settings)), disk = d\<rparr>"

subsection \<open>savePin, verifyPin\<close>

definition savePin :: "bool \<Rightarrow> string \<Rightarrow> world \<Rightarrow> bool \<times> world" where
  "savePin ok newPin w =
     (case setItem ok ''parentPin'' newPin (disk w) of
        Rejected \<Rightarrow> (False, w)
      | Resolved d \<Rightarrow> (True, \<lparr>mem = (mem w)\<lparr>pin := Some newPin, isPinSet := True\<rparr>, disk = d\<rparr>))"

definition verifyPin :: "settings \<Rightarrow> string \<Rightarrow> bool" where
  "verifyPin s enteredPin = (Some enteredPin = pin s)"

subsection \<open>The toggles and clearSettings\<close>

text \<open>
  Both toggles call the state setter first and await the write afterwards; neither has a
  \<^verbatim>\<open>try\<close>, so a rejected write makes the returned promise reject.

  \<^verbatim>\<open>toggleVideoSelectionInContext\<close> is created anew by every render and computes the new
  list from \<^verbatim>\<open>selectedVideos\<close>, a constant of its render; the setter is given the list,
  not an updater function. \<open>toggleVideoSelectionInContext_of sel\<close> is the function of
  a render whose constant is \<open>sel\<close>. Called through the control of the current render,
  the constant is the selection in the provider's state; a caller that kept the function
  of an earlier render (the feed screen's purchase callback does) calls it with that
  render's list.
\<close>

definition toggleVideoSelectionInContext_of ::
    "string list \<Rightarrow> json \<Rightarrow> bool \<Rightarrow> string \<Rightarrow> world \<Rightarrow> unit outcome \<times> world" where
  "toggleVideoSelectionInContext_of sel J ok videoId w =
     (let newSelectedVideos =
            (if videoId \<in> set sel then filter (\<lambda>i. i \<noteq> videoId) sel else sel @ [videoId]);
          m = (mem w)\<lparr>selectedVideos := newSelectedVideos\<rparr>
      in (case setItem ok ''selectedVideos'' (JSON_stringify J newSelectedVideos) (disk w) of
            Rejected \<Rightarrow> (Throws, w\<lparr>mem := m\<rparr>)
          | Resolved d \<Rightarrow> (Returns (), \<lparr>mem = m, disk = d\<rparr>)))"

definition toggleVideoSelectionInContext ::
    "json \<Rightarrow> bool \<Rightarrow> string \<Rightarrow> world \<Rightarrow> unit outcome \<times> world" where
  "toggleVideoSelectionInContext J ok videoId w =
     toggleVideoSelectionInContext_of (selectedVideos (mem w)) J ok videoId w"

definition String_of_bool :: "bool \<Rightarrow> string" where
  "String_of_bool b = (if b then ''true'' else ''false'')"

definition toggleRestrictedMode :: "bool \<Rightarrow> world \<Rightarrow> unit outcome \<times> world" where
  "toggleRestrictedMode ok w =
     (let newMode = \<not> restrictedMode (mem w);
          m = (mem w)\<lparr>restrictedMode := newMode\<rparr>
      in (case setItem ok ''restrictedMode'' (String_of_bool newMode) (disk w) of
            Rejected \<Rightarrow> (Throws, w\<lparr>mem := m\<rparr>)
          | Resolved d \<Rightarrow> (Returns (), \<lparr>mem = m, disk = d\<rparr>)))"

text \<open>\<^verbatim>\<open>clearSettings\<close> awaits the removal first; the setters run only if it resolved.\<close>

definition clearSettings :: "bool \<Rightarrow> world \<Rightarrow> unit outcome \<times> world" where
  "clearSettings ok w =
     (case multiRemove ok [''parentPin'', ''restrictedMode'', ''selectedVideos''] (disk w) of
        Rejected \<Rightarrow> (Throws, w)
      | Resolved d \<Rightarrow>
          (Returns (),
           \<lparr>mem = (mem w)\<lparr>pin := None, isPinSet := False, restrictedMode := False,
                          selectedVideos := []\<rparr>,
            disk = d\<rparr>))"

section \<open>The video feed screen (src/firebaseConfig.js, component ForYouScreen)\<close>

definition MAX_FREE_SELECTIONS :: nat where
  "MAX_FREE_SELECTIONS = 5"

definition MAX_RETRY_ATTEMPTS :: nat where
  "MAX_RETRY_ATTEMPTS = 3"

record VideoData =
  video_id :: string
  video_url :: string

subsection \<open>Objects used as dictionaries\<close>

text \<open>
  \<^verbatim>\<open>videoErrors\<close> and \<^verbatim>\<open>retryAttempts\<close> are plain objects (\<^verbatim>\<open>{}\<close>, then spreads) keyed
  by video id. Reading \<^verbatim>\<open>obj[key]\<close> gives the object's own entry if there is one,
  otherwise the member of \<^verbatim>\<open>Object.prototype\<close> of that name if there is one, otherwise
  \<^verbatim>\<open>undefined\<close>. Writing through a computed key in an object literal and \<^verbatim>\<open>delete\<close>
  act on own entries only. A map holds the own entries.
\<close>

definition Object_prototype :: "string set" where
  "Object_prototype =
     {''constructor'', ''__defineGetter__'', ''__defineSetter__'', ''hasOwnProperty'',
      ''__lookupGetter__'', ''__lookupSetter__'', ''isPrototypeOf'', ''propertyIsEnumerable'',
      ''toString'', ''valueOf'', ''__proto__'', ''toLocaleString''}"

datatype 'a property = Own 'a | Inherited | Undefined

definition property :: "(string \<rightharpoonup> 'a) \<Rightarrow> string \<Rightarrow> 'a property" where
  "property obj key =
     (case obj key of
        Some v \<Rightarrow> Own v
      | None \<Rightarrow> if key \<in> Object_prototype then Inherited else Undefined)"

text \<open>
  An entry of \<^verbatim>\<open>retryAttempts\<close> is a number, or the string that \<^verbatim>\<open>+ 1\<close> makes of an
  inherited member (a function or an object) and of such a string again.
\<close>

datatype attempts = Number nat | Text

text \<open>
  The component's \<^verbatim>\<open>useState\<close> cells that the handlers below read or write, and
  \<^verbatim>\<open>videoRefs\<close> as the set of ids whose player component is mounted (a non-null ref).
  \<^verbatim>\<open>videoErrors\<close> maps an id to the message of its \<^verbatim>\<open>VideoError\<close>.
\<close>

record screen =
  hasSimulatedPremium :: bool
  isSimulatingPurchase :: bool
  currentlyPlaying :: "string option"
  videoToPlayIntent :: "string option"
  backendVideos :: "VideoData list"
  backendLoading :: bool
  backendError :: "string option"
  videoErrors :: "string \<rightharpoonup> string"
  retryAttempts :: "string \<rightharpoonup> attempts"
  videoRefs :: "string set"

subsection \<open>handleVideoError, retryVideo\<close>

text \<open>
  A handler is a closure created by one render of the component: where it reads
  \<^verbatim>\<open>currentlyPlaying\<close> or \<^verbatim>\<open>videoToPlayIntent\<close> it reads the constants of that render
  (\<open>rs\<close>, the state as that render saw it), not the state at the time of the call. The
  setters called with an updater function (\<^verbatim>\<open>prev => ...\<close>) work on the state at the
  time of the call (\<open>st\<close>). \<^verbatim>\<open>error.message || '...'\<close> replaces an empty message.

  \<^verbatim>\<open>(prev[videoId] || 0) + 1\<close>: a number is incremented, \<^verbatim>\<open>undefined\<close> gives 1, and a
  string or an inherited member (both truthy) gives a string.
\<close>

fun incremented :: "attempts property \<Rightarrow> attempts" where
  "incremented (Own (Number n)) = Number (n + 1)"
| "incremented (Own Text) = Text"
| "incremented Inherited = Text"
| "incremented Undefined = Number 1"

definition handleVideoError :: "screen \<Rightarrow> string \<Rightarrow> string \<Rightarrow> screen \<Rightarrow> screen" where
  "handleVideoError rs videoId message st =
     (let errorMessage = (if message = [] then ''An unknown video error occurred'' else message)
      in st\<lparr>videoErrors := (videoErrors st)(videoId \<mapsto> errorMessage),
            retryAttempts :=
              (retryAttempts st)(videoId \<mapsto> incremented (property (retryAttempts st) videoId)),
            currentlyPlaying :=
              (if currentlyPlaying rs = Some videoId then None else currentlyPlaying st),
            videoToPlayIntent :=
              (if videoToPlayIntent rs = Some videoId then None else videoToPlayIntent st)\<rparr>)"

definition retryVideo :: "string \<Rightarrow> screen \<Rightarrow> screen" where
  "retryVideo videoId st =
     st\<lparr>videoErrors := (videoErrors st)(videoId := None),
        retryAttempts := (retryAttempts st)(videoId := None),
        videoToPlayIntent := Some videoId\<rparr>"

subsection \<open>performPlayback\<close>

text \<open>
  The effect runs after the render in which \<^verbatim>\<open>videoToPlayIntent\<close> changed, and
  \<^verbatim>\<open>performPlayback\<close> runs synchronously up to its first \<^verbatim>\<open>await\<close>. What is left of it
  (the continuation after the awaits, and the callback given to \<^verbatim>\<open>setTimeout\<close>) is an
  attempt in flight: it keeps \<^verbatim>\<open>videoId\<close> and the render whose \<^verbatim>\<open>handleVideoError\<close> it
  calls. The effect has no cleanup function, so a later play request leaves the attempt
  in flight.
\<close>

record attempt =
  attempt_videoId :: string
  attempt_render :: screen

text \<open>
  The ids looked up in \<^verbatim>\<open>videoRefs\<close> are play intents and the playing id. They come
  from the controls of rendered items, whose ref callback has written an own entry (the
  player, or \<^verbatim>\<open>null\<close> after unmounting), so these reads do not reach the prototype.
\<close>

definition performPlayback_start :: "screen \<Rightarrow> screen \<times> attempt option" where
  "performPlayback_start st =
     (case videoToPlayIntent st of
        None \<Rightarrow> (st, None)
      | Some videoId \<Rightarrow>
          let st1 = st\<lparr>videoErrors := (videoErrors st)(videoId := None)\<rparr>
          in if videoId \<notin> videoRefs st
             then ((handleVideoError st videoId ''Player not ready.'' st1)
                     \<lparr>videoToPlayIntent := None\<rparr>, None)
             else if (case find (\<lambda>v. video_id v = videoId) (backendVideos st) of
                        None \<Rightarrow> True
                      | Some videoData \<Rightarrow> video_url videoData = [])
             then ((handleVideoError st videoId ''Video data missing.'' st1)
                     \<lparr>videoToPlayIntent := None\<rparr>, None)
             else (st1\<lparr>currentlyPlaying := Some videoId\<rparr>,
                   Some \<lparr>attempt_videoId = videoId, attempt_render = st\<rparr>))"

text \<open>
  What the media engine answers to the awaited calls of a \<^verbatim>\<open>try\<close> block: one of them
  throws an error with a message, or the status arrives (\<^verbatim>\<open>isLoaded\<close>, \<^verbatim>\<open>isPlaying\<close>)
  and the calls after it go through.
\<close>

datatype engine = EngineThrows string | EngineStatus bool bool

text \<open>The rest of the \<^verbatim>\<open>try\<close> block with its \<^verbatim>\<open>catch\<close> and \<^verbatim>\<open>finally\<close>.\<close>

definition performPlayback_finish :: "attempt \<Rightarrow> engine \<Rightarrow> screen \<Rightarrow> screen" where
  "performPlayback_finish a e st =
     (let caught = (\<lambda>message.
            (handleVideoError (attempt_render a) (attempt_videoId a) message st)
              \<lparr>videoToPlayIntent := None\<rparr>)
      in case e of
           EngineThrows message \<Rightarrow> caught message
         | EngineStatus isLoaded isPlaying \<Rightarrow>
             if isLoaded \<and> \<not> isPlaying then st\<lparr>videoToPlayIntent := None\<rparr>
             else if \<not> isLoaded then caught ''Failed to load video content.''
             else st\<lparr>videoToPlayIntent := None\<rparr>)"

text \<open>The callback of the 12 second timer, which runs unless the load settled first.\<close>

definition performPlayback_timeout :: "attempt \<Rightarrow> screen \<Rightarrow> screen" where
  "performPlayback_timeout a st =
     handleVideoError (attempt_render a) (attempt_videoId a) ''Video loading timed out.'' st"

subsection \<open>handleVideoPlayback and the player's callbacks\<close>

text \<open>
  The tap handler and the callbacks given to the player component are created by the
  latest render, so the render they read is the state they are called in.
\<close>

definition handleVideoPlayback :: "bool \<Rightarrow> engine \<Rightarrow> string \<Rightarrow> screen \<Rightarrow> screen" where
  "handleVideoPlayback online e videoId st =
     (if \<not> online then handleVideoError st videoId ''No internet connection.'' st
      else if currentlyPlaying st = Some videoId \<and> videoId \<in> videoRefs st
      then (case e of
              EngineThrows message \<Rightarrow> handleVideoError st videoId message st
            | EngineStatus isLoaded isPlaying \<Rightarrow>
                if isLoaded then st else st\<lparr>videoToPlayIntent := Some videoId\<rparr>)
      else st\<lparr>videoToPlayIntent := Some videoId\<rparr>)"

record AVPlaybackStatus =
  isLoaded :: bool
  error :: "string option"
  didJustFinish :: bool

definition onPlaybackStatusUpdate :: "string \<Rightarrow> AVPlaybackStatus \<Rightarrow> screen \<Rightarrow> screen" where
  "onPlaybackStatusUpdate itemId status st =
     (if Some itemId = currentlyPlaying st \<and> isLoaded status
      then (case error status of
              Some message \<Rightarrow> handleVideoError st itemId message st
            | None \<Rightarrow> if didJustFinish status then st\<lparr>currentlyPlaying := None\<rparr> else st)
      else st)"

definition onError :: "string \<Rightarrow> string \<Rightarrow> screen \<Rightarrow> screen" where
  "onError itemId errorMsg st = handleVideoError st itemId (''Player error: '' @ errorMsg) st"

subsection \<open>renderVideoItem\<close>

text \<open>
  What an item of the list shows over its thumbnail. \<^verbatim>\<open>!!videoErrors[item.id]\<close> is true
  for an own entry and for an inherited member. In
  \<^verbatim>\<open>(retryAttempts[item.id] || 0) < MAX_RETRY_ATTEMPTS\<close> a number is compared as it is
  and \<^verbatim>\<open>undefined\<close> as 0; a string or an inherited member converts to \<^verbatim>\<open>NaN\<close>, and the
  comparison is false. The retry control, whose \<^verbatim>\<open>onPress\<close> is the only caller of
  \<^verbatim>\<open>retryVideo\<close>, exists in one branch only.
\<close>

datatype overlay = VideoPlayer | RetryButton | MaxRetriesText | PlayButton

definition canRetry :: "screen \<Rightarrow> string \<Rightarrow> bool" where
  "canRetry st itemId =
     (case property (retryAttempts st) itemId of
        Own (Number n) \<Rightarrow> n < MAX_RETRY_ATTEMPTS
      | Own Text \<Rightarrow> False
      | Inherited \<Rightarrow> False
      | Undefined \<Rightarrow> 0 < MAX_RETRY_ATTEMPTS)"

definition renderVideoItem :: "screen \<Rightarrow> VideoData \<Rightarrow> overlay option" where
  "renderVideoItem st item =
     (if video_id item = [] \<or> video_url item = [] then None
      else let isPlaying = (currentlyPlaying st = Some (video_id item));
               hasError = (property (videoErrors st) (video_id item) \<noteq> Undefined);
               showVideoPlayer = (isPlaying \<and> \<not> hasError)
           in Some (if showVideoPlayer then VideoPlayer
                    else if hasError
                         then (if canRetry st (video_id item) then RetryButton
                               else MaxRetriesText)
                         else PlayButton))"

subsection \<open>What the screen shows\<close>

text \<open>
  The component returns the loading screen while the settings or the videos are loading
  or a purchase is being processed, the error screen if the backend failed, and the list
  otherwise. The controls of the items (select, play, retry) exist in the list only.
\<close>

datatype view = LoadingScreen | ErrorScreen | VideoList

definition ForYouScreen_view :: "settings \<Rightarrow> screen \<Rightarrow> view" where
  "ForYouScreen_view s st =
     (if isLoading s \<or> backendLoading st \<or> isSimulatingPurchase st then LoadingScreen
      else if backendError st \<noteq> None \<and> backendError st \<noteq> Some [] then ErrorScreen
      else VideoList)"

subsection \<open>handleToggleVideoSelection\<close>

text \<open>
  The handler reads the purchase flags of the screen and the selection of the settings
  store, as its render has them, and calls the \<^verbatim>\<open>toggleVideoSelectionInContext\<close> of the
  same render. It is the \<^verbatim>\<open>onPress\<close> of the select control, so it is called from the
  render of the current state. It drops the promise of the toggle, so its caller sees
  only which of the three paths was taken.
\<close>

datatype selection = Ignored | UnlockPremiumAlert | Toggled

definition handleToggleVideoSelection ::
    "json \<Rightarrow> bool \<Rightarrow> screen \<Rightarrow> string \<Rightarrow> world \<Rightarrow> selection \<times> world" where
  "handleToggleVideoSelection J ok st videoId w =
     (if isSimulatingPurchase st then (Ignored, w)
      else let isCurrentlySelected = (videoId \<in> set (selectedVideos (mem w)))
           in if \<not> isCurrentlySelected
                 \<and> length (selectedVideos (mem w)) \<ge> MAX_FREE_SELECTIONS
                 \<and> \<not> hasSimulatedPremium st
              then (UnlockPremiumAlert, w)
              else (Toggled, snd (toggleVideoSelectionInContext J ok videoId w)))"

section \<open>Sequences of store operations\<close>

text \<open>
  One store operation with the outcome of its write (\<open>True\<close>: the storage call
  resolved), or a new launch of the app with the outcomes of its three reads. Here each
  toggle is called through the control of the current render.
\<close>

datatype op =
    SavePin string bool
  | ToggleVideo string bool
  | ToggleMode bool
  | Clear bool
  | Launch reads

fun step :: "json \<Rightarrow> world \<Rightarrow> op \<Rightarrow> world" where
  "step J w (SavePin p ok) = snd (savePin ok p w)"
| "step J w (ToggleVideo v ok) = snd (toggleVideoSelectionInContext J ok v w)"
| "step J w (ToggleMode ok) = snd (toggleRestrictedMode ok w)"
| "step J w (Clear ok) = snd (clearSettings ok w)"
| "step J w (Launch r) = launch J r (disk w)"

definition run :: "json \<Rightarrow> op list \<Rightarrow> world \<Rightarrow> world" where
  "run J ops w = foldl (step J) w ops"

text \<open>
  The specification's words, read off a sequence of operations. \<open>lastSetPin ops p0\<close> is
  the most recently successfully set PIN, where \<open>p0\<close> is the PIN in force before the
  sequence and a successful clear leaves none. \<open>pinSetSince ops\<close> says that
  \<^verbatim>\<open>setPin\<close> has succeeded at least once since the last successful clear.
\<close>

fun lastSetPin :: "op list \<Rightarrow> string option \<Rightarrow> string option" where
  "lastSetPin [] p0 = p0"
| "lastSetPin (SavePin p True # ops) p0 = lastSetPin ops (Some p)"
| "lastSetPin (Clear True # ops) p0 = lastSetPin ops None"
| "lastSetPin (_ # ops) p0 = lastSetPin ops p0"

fun pinSetAfter :: "bool \<Rightarrow> op list \<Rightarrow> bool" where
  "pinSetAfter b [] = b"
| "pinSetAfter b (SavePin p True # ops) = pinSetAfter True ops"
| "pinSetAfter b (Clear True # ops) = pinSetAfter False ops"
| "pinSetAfter b (_ # ops) = pinSetAfter b ops"

definition pinSetSince :: "op list \<Rightarrow> bool" where
  "pinSetSince ops = pinSetAfter False ops"

text \<open>
  Operations under which the PIN entry stays usable: a successful \<^verbatim>\<open>savePin\<close> stores
  a non-empty PIN, and a launch gets to read the PIN entry.
\<close>

fun storesNonEmptyPin :: "op \<Rightarrow> bool" where
  "storesNonEmptyPin (SavePin p ok) = (ok \<longrightarrow> p \<noteq> [])"
| "storesNonEmptyPin (Launch r) = pinRead r"
| "storesNonEmptyPin _ = True"

text \<open>
  What ties \<open>isPinSet\<close> to the storage: the flag is \<open>b\<close>, and a non-empty PIN is stored
  exactly if \<open>b\<close>.
\<close>

definition pinKept :: "world \<Rightarrow> bool \<Rightarrow> bool" where
  "pinKept w b \<longleftrightarrow>
     isPinSet (mem w) = b
     \<and> (case disk w ''parentPin'' of None \<Rightarrow> False | Some p \<Rightarrow> p \<noteq> []) = b"

text \<open>What ties the PIN in the state to the storage: both are \<open>e\<close>, which is not empty.\<close>

definition pinHeld :: "world \<Rightarrow> string option \<Rightarrow> bool" where
  "pinHeld w e \<longleftrightarrow> pin (mem w) = e \<and> disk w ''parentPin'' = e \<and> e \<noteq> Some []"

subsection \<open>Sequences of toggles\<close>

text \<open>
  A call of \<^verbatim>\<open>toggleVideoSelectionInContext\<close> names the render whose function is
  called, counted back from the current one (0: the current render; a number beyond the
  first render means the first), the id, and the outcome of the write. \<open>past\<close> holds the
  selections of the earlier renders, the latest first.
\<close>

type_synonym call = "nat \<times> string \<times> bool"

fun toggleCalls :: "json \<Rightarrow> string list list \<Rightarrow> world \<Rightarrow> call list \<Rightarrow> world" where
  "toggleCalls J past w [] = w"
| "toggleCalls J past w ((k, v, ok) # cs) =
     toggleCalls J (selectedVideos (mem w) # past)
       (snd (toggleVideoSelectionInContext_of
               ((selectedVideos (mem w) # past) ! min k (length past)) J ok v w))
       cs"

text \<open>Number of toggles of one id in a sequence of calls.\<close>

definition toggledTimes :: "string \<Rightarrow> call list \<Rightarrow> nat" where
  "toggledTimes v cs = count_list (map (\<lambda>(k, u, ok). u) cs) v"

text \<open>Every call goes through the function of the render that is current at the call.\<close>

definition currentRenders :: "call list \<Rightarrow> bool" where
  "currentRenders cs = list_all (\<lambda>(k, u, ok). k = 0) cs"

section \<open>Concrete inputs\<close>

text \<open>
  A codec to run the store with. It agrees with JSON on lists of ids that need no
  escaping, on the text \<^verbatim>\<open>null\<close>, and in rejecting a text that breaks off.
\<close>

definition quoted :: "string \<Rightarrow> string" where
  "quoted s = CHR 0x22 # s @ [CHR 0x22]"

fun stringify_items :: "string list \<Rightarrow> string" where
  "stringify_items [] = []"
| "stringify_items [x] = quoted x"
| "stringify_items (x # y # xs) = quoted x @ CHR '','' # stringify_items (y # xs)"

datatype scanning = Item | Chars string | Separator

fun parse_items :: "scanning \<Rightarrow> string list \<Rightarrow> string \<Rightarrow> string list option" where
  "parse_items sc acc [] = None"
| "parse_items Item acc (c # cs) =
     (if c = CHR 0x22 then parse_items (Chars []) acc cs else None)"
| "parse_items (Chars t) acc (c # cs) =
     (if c = CHR 0x22 then parse_items Separator (rev t # acc) cs
      else parse_items (Chars (c # t)) acc cs)"
| "parse_items Separator acc (c # cs) =
     (if c = CHR '','' then parse_items Item acc cs
      else if c = CHR '']'' \<and> cs = [] then Some (rev acc)
      else None)"

definition small_json :: json where
  "small_json =
     \<lparr>JSON_stringify = (\<lambda>ids. CHR ''['' # stringify_items ids @ [CHR '']'']),
      JSON_parse = (\<lambda>s.
        if s = ''null'' then Some JNull
        else if s = ''[]'' then Some (JArray [])
        else (case s of
                [] \<Rightarrow> None
              | c # cs \<Rightarrow>
                  if c = CHR ''[''
                  then map_option (\<lambda>ids. JArray (map JString ids)) (parse_items Item [] cs)
                  else None))\<rparr>"

definition all_reads :: reads where
  "all_reads = \<lparr>pinRead = True, modeRead = True, videosRead = True\<rparr>"

text \<open>A launch whose read of the PIN entry is rejected.\<close>

definition pin_unread :: reads where
  "pin_unread = \<lparr>pinRead = False, modeRead = True, videosRead = True\<rparr>"

text \<open>A first launch: nothing stored yet.\<close>

definition fresh :: world where
  "fresh = launch small_json all_reads Map.empty"

text \<open>The store after the first launch and one selection.\<close>

definition one_selected :: world where
  "one_selected = snd (toggleVideoSelectionInContext small_json True ''a'' fresh)"

text \<open>The store after the first launch and five selections.\<close>

definition five_selected :: world where
  "five_selected =
     toggleCalls small_json [] fresh
       [(0, ''a'', True), (0, ''b'', True), (0, ''c'', True), (0, ''d'', True), (0, ''e'', True)]"



text \<open>The feed screen with two playable items and nothing going on.\<close>

definition idle :: screen where
  "idle =
     \<lparr>hasSimulatedPremium = False, isSimulatingPurchase = False,
      currentlyPlaying = None, videoToPlayIntent = None,
      backendVideos = [\<lparr>video_id = ''a'', video_url = ''https://v/a.mp4''\<rparr>,
                       \<lparr>video_id = ''b'', video_url = ''https://v/b.mp4''\<rparr>],
      backendLoading = False, backendError = None,
      videoErrors = Map.empty, retryAttempts = Map.empty,
      videoRefs = {''a'', ''b''}\<rparr>"

text \<open>The same screen after premium was unlocked.\<close>

definition premium :: screen where
  "premium = idle\<lparr>hasSimulatedPremium := True\<rparr>"

definition item_b :: VideoData where
  "item_b = \<lparr>video_id = ''b'', video_url = ''https://v/b.mp4''\<rparr>"

text \<open>
  A tap on \<open>b\<close> while online, the effect that starts loading \<open>b\<close>, then a tap on \<open>a\<close>
  before the load of \<open>b\<close> has settled, and the effect that starts loading \<open>a\<close>.
\<close>

definition b_requested :: screen where
  "b_requested = handleVideoPlayback True (EngineStatus False False) ''b'' idle"

definition attempt_b :: attempt where
  "attempt_b = \<lparr>attempt_videoId = ''b'', attempt_render = b_requested\<rparr>"

definition b_pending :: screen where
  "b_pending = fst (performPlayback_start b_requested)"

definition a_requested :: screen where
  "a_requested = handleVideoPlayback True (EngineStatus False False) ''a'' b_pending"

definition attempt_a :: attempt where
  "attempt_a = \<lparr>attempt_videoId = ''a'', attempt_render = a_requested\<rparr>"

definition a_pending :: screen where
  "a_pending = fst (performPlayback_start a_requested)"

text \<open>
  The effect for the current play intent, followed by a load that fails with a network
  error: one failed playback attempt. Then three of them on \<open>b\<close>, with a tap on the
  retry control before the second and the third.
\<close>

definition failedAttempt :: "screen \<Rightarrow> screen" where
  "failedAttempt st =
     (case performPlayback_start st of
        (st', None) \<Rightarrow> st'
      | (st', Some a) \<Rightarrow> performPlayback_finish a (EngineThrows ''Network error'') st')"

definition failed_once :: screen where
  "failed_once = failedAttempt b_requested"

definition failed_twice :: screen where
  "failed_twice = failedAttempt (retryVideo ''b'' failed_once)"

definition failed_thrice :: screen where
  "failed_thrice = failedAttempt (retryVideo ''b'' failed_twice)"

section \<open>Properties of the settings store\<close>

lemmas storage_defs = getItem_def setItem_def multiRemove_def

lemmas load_defs = loadSettings_def loadSettings_try_def launch_def initial_settings_def

lemmas op_defs =
  savePin_def toggleVideoSelectionInContext_def toggleVideoSelectionInContext_of_def
  toggleRestrictedMode_def clearSettings_def

lemma run_Nil [simp]: "run J [] w = w"
  by (simp add: run_def)

lemma run_Cons [simp]: "run J (x # ops) w = run J ops (step J w x)"
  by (simp add: run_def)

lemma run_append: "run J (xs @ ys) w = run J ys (run J xs w)"
  by (simp add: run_def)

subsection \<open>Loading\<close>




text \<open>
  Claim C10. If \<^verbatim>\<open>savePin\<close> stores the empty string successfully, then in that session
  \<open>isPinSet\<close> is true and \<^verbatim>\<open>verifyPin("")\<close> accepts; after the next launch from the same
  storage the empty entry counts as no PIN: \<open>isPinSet\<close> is false and \<^verbatim>\<open>verifyPin("")\<close>
  rejects.
\<close>

theorem empty_pin_lost_on_reload:
  "fst (savePin ok [] w) \<Longrightarrow>
     isPinSet (mem (snd (savePin ok [] w)))
     \<and> verifyPin (mem (snd (savePin ok [] w))) []
     \<and> \<not> isPinSet (mem (launch J r (disk (snd (savePin ok [] w)))))
     \<and> \<not> verifyPin (mem (launch J r (disk (snd (savePin ok [] w))))) []"
  by (auto simp: savePin_def verifyPin_def load_defs storage_defs Let_def
           split: option.splits awaited.splits prod.splits outcome.splits if_splits)

theorem empty_pin_lost_on_reload_witness:
  "fst (savePin True [] fresh)
   \<and> isPinSet (mem (snd (savePin True [] fresh)))
   \<and> \<not> isPinSet (mem (launch small_json all_reads (disk (snd (savePin True [] fresh)))))"
proof -
  have h: "fst (savePin True [] fresh)"
    by (simp add: savePin_def storage_defs)
  show ?thesis
    using h empty_pin_lost_on_reload [OF h, of small_json all_reads] by simp
qed

subsection \<open>The PIN across sessions\<close>

lemma pinHeld_step:
  "storesNonEmptyPin x \<Longrightarrow> pinHeld w e \<Longrightarrow> pinHeld (step J w x) (lastSetPin [x] e)"
  by (cases x;
      cases "case x of SavePin p ok \<Rightarrow> ok | ToggleVideo v ok \<Rightarrow> ok | ToggleMode ok \<Rightarrow> ok
                     | Clear ok \<Rightarrow> ok | Launch r \<Rightarrow> True")
     (auto simp: pinHeld_def op_defs storage_defs load_defs Let_def
           split: option.splits awaited.splits prod.splits outcome.splits if_splits)

lemma lastSetPin_Cons: "lastSetPin (x # ops) p0 = lastSetPin ops (lastSetPin [x] p0)"
  by (induction "x # ops" p0 rule: lastSetPin.induct) auto

lemma pinHeld_run:
  "\<forall>x\<in>set ops. storesNonEmptyPin x \<Longrightarrow> pinHeld w e \<Longrightarrow>
     pinHeld (run J ops w) (lastSetPin ops e)"
proof (induction ops arbitrary: w e)
  case Nil
  then show ?case by simp
next
  case (Cons x ops)
  have "pinHeld (step J w x) (lastSetPin [x] e)"
    using Cons.prems by (simp add: pinHeld_step)
  then have "pinHeld (run J ops (step J w x)) (lastSetPin ops (lastSetPin [x] e))"
    using Cons by simp
  then show ?case
    by (simp add: lastSetPin_Cons [of x ops])
qed

lemma pinHeld_first_launch: "pinHeld (launch J r Map.empty) None"
  by (auto simp: pinHeld_def load_defs storage_defs Let_def
           split: option.splits awaited.splits prod.splits outcome.splits if_splits)

text \<open>
  Claim C5, as stated, fails across a launch: after \<^verbatim>\<open>savePin("1234")\<close> has succeeded
  and the app is launched again with the read of the PIN entry rejected,
  \<^verbatim>\<open>verifyPin("1234")\<close> is false although 1234 is the most recently successfully set PIN.
\<close>

theorem verifyPin_last_set_counterexample:
  "lastSetPin [SavePin ''1234'' True, Launch pin_unread] None = Some ''1234''
   \<and> \<not> verifyPin (mem (run small_json [SavePin ''1234'' True, Launch pin_unread] fresh)) ''1234''"
  by (simp add: verifyPin_def fresh_def op_defs load_defs storage_defs all_reads_def
        pin_unread_def)

text \<open>
  Claim C5, amended. \<^verbatim>\<open>verifyPin\<close> takes the provider's state and the candidate and
  returns a boolean: it has no access to the storage and no failing path. From a first
  launch, over every sequence of store operations and launches in which each PIN that
  \<^verbatim>\<open>savePin\<close> stores is non-empty and each launch reads the PIN entry, it accepts a
  candidate iff the candidate is the most recently successfully set PIN since the last
  successful clear; when no PIN is set it rejects every candidate, the empty string
  included.
\<close>

theorem verifyPin_last_set:
  assumes "\<forall>x\<in>set ops. storesNonEmptyPin x"
  shows "(verifyPin (mem (run J ops (launch J r Map.empty))) c
            \<longleftrightarrow> lastSetPin ops None = Some c)
       \<and> (lastSetPin ops None = None \<longrightarrow>
            \<not> verifyPin (mem (run J ops (launch J r Map.empty))) c
            \<and> \<not> verifyPin (mem (run J ops (launch J r Map.empty))) [])"
  using pinHeld_run [OF assms pinHeld_first_launch, of J J r]
  by (auto simp: pinHeld_def verifyPin_def)

theorem verifyPin_last_set_witness:
  "storesNonEmptyPin (SavePin ''1234'' True) \<and> storesNonEmptyPin (ToggleVideo ''a'' True)
   \<and> storesNonEmptyPin (Launch all_reads) \<and> storesNonEmptyPin (SavePin ''9999'' False)
   \<and> verifyPin
       (mem (run small_json
               [SavePin ''1234'' True, ToggleVideo ''a'' True, Launch all_reads,
                SavePin ''9999'' False]
               (launch small_json all_reads Map.empty)))
       ''1234''
   \<and> \<not> verifyPin
       (mem (run small_json
               [SavePin ''1234'' True, ToggleVideo ''a'' True, Launch all_reads,
                SavePin ''9999'' False]
               (launch small_json all_reads Map.empty)))
       ''9999''"
proof -
  have h: "\<forall>x\<in>set [SavePin ''1234'' True, ToggleVideo ''a'' True, Launch all_reads,
                     SavePin ''9999'' False].
             storesNonEmptyPin x"
    by (simp add: all_reads_def)
  show ?thesis
    using h verifyPin_last_set [OF h, of small_json all_reads "''1234''"]
      verifyPin_last_set [OF h, of small_json all_reads "''9999''"]
    by simp
qed

subsection \<open>isPinSet across sessions\<close>

lemma pinKept_step:
  "storesNonEmptyPin x \<Longrightarrow> pinKept w b \<Longrightarrow> pinKept (step J w x) (pinSetAfter b [x])"
  by (cases x;
      cases "case x of SavePin p ok \<Rightarrow> ok | ToggleVideo v ok \<Rightarrow> ok | ToggleMode ok \<Rightarrow> ok
                     | Clear ok \<Rightarrow> ok | Launch r \<Rightarrow> True")
     (auto simp: pinKept_def op_defs storage_defs load_defs Let_def
           split: option.splits awaited.splits prod.splits outcome.splits if_splits)

lemma pinSetAfter_Cons: "pinSetAfter b (x # ops) = pinSetAfter (pinSetAfter b [x]) ops"
  by (induction b "x # ops" rule: pinSetAfter.induct) auto

lemma pinKept_run:
  "\<forall>x\<in>set ops. storesNonEmptyPin x \<Longrightarrow> pinKept w b \<Longrightarrow>
     pinKept (run J ops w) (pinSetAfter b ops)"
proof (induction ops arbitrary: w b)
  case Nil
  then show ?case by simp
next
  case (Cons x ops)
  have "pinKept (step J w x) (pinSetAfter b [x])"
    using Cons.prems by (simp add: pinKept_step)
  then have "pinKept (run J ops (step J w x)) (pinSetAfter (pinSetAfter b [x]) ops)"
    using Cons by simp
  then show ?case
    by (simp add: pinSetAfter_Cons [of b x ops])
qed

lemma pinKept_first_launch: "pinKept (launch J r Map.empty) False"
  by (auto simp: pinKept_def load_defs storage_defs Let_def
           split: option.splits awaited.splits prod.splits outcome.splits if_splits)

text \<open>
  Claim C9, as stated, fails: after \<^verbatim>\<open>savePin("")\<close> has succeeded and the app is
  launched again, \<open>isPinSet\<close> is false although \<^verbatim>\<open>setPin\<close> has succeeded since the last
  clear.
\<close>

theorem isPinSet_since_clear_counterexample:
  "pinSetSince [SavePin [] True, Launch all_reads]
   \<and> \<not> isPinSet (mem (run small_json [SavePin [] True, Launch all_reads] fresh))"
  by (simp add: pinSetSince_def fresh_def op_defs load_defs storage_defs all_reads_def)

text \<open>
  Claim C9, amended. From a first launch, over every sequence of store operations and
  launches in which each PIN that \<^verbatim>\<open>savePin\<close> stores is non-empty and each launch reads
  the PIN entry, \<open>isPinSet\<close> is true iff \<^verbatim>\<open>savePin\<close> has succeeded at least once since the
  last successful \<^verbatim>\<open>clearSettings\<close>.
\<close>

theorem isPinSet_since_clear:
  assumes "\<forall>x\<in>set ops. storesNonEmptyPin x"
  shows "isPinSet (mem (run J ops (launch J r Map.empty))) = pinSetSince ops"
  using pinKept_run [OF assms pinKept_first_launch, of J J r]
  by (simp add: pinKept_def pinSetSince_def)

theorem isPinSet_since_clear_witness:
  "storesNonEmptyPin (SavePin ''1234'' True) \<and> storesNonEmptyPin (ToggleVideo ''a'' True)
   \<and> storesNonEmptyPin (Launch all_reads) \<and> storesNonEmptyPin (Clear False)
   \<and> pinSetSince [SavePin ''1234'' True, ToggleVideo ''a'' True, Launch all_reads, Clear False]
   \<and> isPinSet
       (mem (run small_json
               [SavePin ''1234'' True, ToggleVideo ''a'' True, Launch all_reads, Clear False]
               (launch small_json all_reads Map.empty)))"
proof -
  have h: "\<forall>x\<in>set [SavePin ''1234'' True, ToggleVideo ''a'' True, Launch all_reads, Clear False].
             storesNonEmptyPin x"
    by (simp add: all_reads_def)
  show ?thesis
    using h isPinSet_since_clear [OF h, of small_json all_reads]
    by (simp add: pinSetSince_def)
qed

subsection \<open>Toggling the selection\<close>

lemma toggle_of_mem:
  "selectedVideos (mem (snd (toggleVideoSelectionInContext_of sel J ok v w))) =
     (if v \<in> set sel then filter (\<lambda>i. i \<noteq> v) sel else sel @ [v])"
  by (cases ok) (auto simp: op_defs storage_defs Let_def)

lemma toggle_mem:
  "selectedVideos (mem (snd (toggleVideoSelectionInContext J ok v w))) =
     (if v \<in> set (selectedVideos (mem w)) then filter (\<lambda>i. i \<noteq> v) (selectedVideos (mem w))
      else selectedVideos (mem w) @ [v])"
  by (simp add: toggleVideoSelectionInContext_def toggle_of_mem)

lemma toggle_of_distinct:
  "distinct sel \<Longrightarrow>
     distinct (selectedVideos (mem (snd (toggleVideoSelectionInContext_of sel J ok v w))))"
  by (simp add: toggle_of_mem)

lemma render_distinct:
  assumes "distinct cur" and "\<forall>s\<in>set past. distinct s"
  shows "distinct ((cur # past) ! min k (length past))"
proof -
  have "(cur # past) ! min k (length past) \<in> set (cur # past)"
    by (rule nth_mem) simp
  with assms show ?thesis
    by auto
qed

lemma toggleCalls_distinct:
  "distinct (selectedVideos (mem w)) \<Longrightarrow> \<forall>s\<in>set past. distinct s \<Longrightarrow>
     distinct (selectedVideos (mem (toggleCalls J past w cs)))"
proof (induction cs arbitrary: past w)
  case Nil
  then show ?case by simp
next
  case (Cons c cs)
  obtain k v ok where c: "c = (k, v, ok)"
    by (cases c)
  have "distinct ((selectedVideos (mem w) # past) ! min k (length past))"
    using Cons.prems by (rule render_distinct)
  then have "distinct (selectedVideos (mem (snd (toggleVideoSelectionInContext_of
      ((selectedVideos (mem w) # past) ! min k (length past)) J ok v w))))"
    by (rule toggle_of_distinct)
  moreover have "\<forall>s\<in>set (selectedVideos (mem w) # past). distinct s"
    using Cons.prems by simp
  ultimately show ?case
    unfolding c by (simp add: Cons.IH del: set_simps)
qed

lemma toggleCalls_member:
  "currentRenders cs \<Longrightarrow>
     u \<in> set (selectedVideos (mem (toggleCalls J past w cs))) \<longleftrightarrow>
       (u \<in> set (selectedVideos (mem w))) \<noteq> odd (toggledTimes u cs)"
proof (induction cs arbitrary: past w)
  case Nil
  then show ?case by (simp add: toggledTimes_def)
next
  case (Cons c cs)
  obtain k v ok where c: "c = (k, v, ok)"
    by (cases c)
  have k: "k = 0" and rest: "currentRenders cs"
    using Cons.prems by (simp_all add: currentRenders_def c)
  show ?case
    unfolding c k using Cons.IH [OF rest]
    by (auto simp: toggle_of_mem toggledTimes_def)
qed

text \<open>
  Claim C4, as stated, fails in two ways. From the duplicate-free selection \<open>[a]\<close>, one
  toggle (an odd number) of \<open>a\<close> leaves a selection without \<open>a\<close>. And from the empty
  selection, a toggle of \<open>a\<close> followed by a toggle of \<open>b\<close> through the function of
  the first render, which still has the empty list, leaves \<open>[b]\<close>: \<open>a\<close> was toggled
  once and is not contained.
\<close>

theorem toggle_parity_counterexample:
  "distinct (selectedVideos (mem one_selected))
   \<and> odd (toggledTimes ''a'' [(0, ''a'', True)])
   \<and> ''a'' \<notin> set (selectedVideos (mem (toggleCalls small_json [] one_selected [(0, ''a'', True)])))
   \<and> selectedVideos (mem fresh) = []
   \<and> odd (toggledTimes ''a'' [(0, ''a'', True), (1, ''b'', True)])
   \<and> selectedVideos (mem (toggleCalls small_json [] fresh [(0, ''a'', True), (1, ''b'', True)]))
       = [''b'']"
  by (simp add: one_selected_def fresh_def toggledTimes_def op_defs load_defs storage_defs
        all_reads_def Let_def)

text \<open>
  Claim C4, amended. From a duplicate-free selection and for every finite sequence of
  toggle calls (through the function of the current or of any earlier render, whether or
  not their writes succeed), the selection has no duplicates after any prefix of the
  sequence. If every call goes through the function of the render that is current at
  the call, the final selection contains an id iff exactly one of these holds: the id
  was selected at the start, the id was toggled an odd number of times; so from a
  selection without the id, it is contained iff it was toggled an odd number of times.
\<close>

theorem toggle_parity:
  assumes "distinct (selectedVideos (mem w))"
  shows "(\<forall>n\<le>length cs. distinct (selectedVideos (mem (toggleCalls J [] w (take n cs)))))
       \<and> (currentRenders cs \<longrightarrow>
            (u \<in> set (selectedVideos (mem (toggleCalls J [] w cs))) \<longleftrightarrow>
               (u \<in> set (selectedVideos (mem w))) \<noteq> odd (toggledTimes u cs)))
       \<and> (currentRenders cs \<and> u \<notin> set (selectedVideos (mem w)) \<longrightarrow>
            (u \<in> set (selectedVideos (mem (toggleCalls J [] w cs))) \<longleftrightarrow>
               odd (toggledTimes u cs)))"
proof (intro conjI allI impI)
  show "distinct (selectedVideos (mem (toggleCalls J [] w (take n cs))))" for n
    using assms by (simp add: toggleCalls_distinct)
  show "u \<in> set (selectedVideos (mem (toggleCalls J [] w cs))) \<longleftrightarrow>
           (u \<in> set (selectedVideos (mem w))) \<noteq> odd (toggledTimes u cs)"
    if "currentRenders cs"
    using that by (rule toggleCalls_member)
  show "u \<in> set (selectedVideos (mem (toggleCalls J [] w cs))) \<longleftrightarrow> odd (toggledTimes u cs)"
    if "currentRenders cs \<and> u \<notin> set (selectedVideos (mem w))"
    using that toggleCalls_member [of cs u J "[]" w] by simp
qed

theorem toggle_parity_witness:
  "distinct (selectedVideos (mem fresh))
   \<and> ''a'' \<notin> set (selectedVideos (mem fresh))
   \<and> currentRenders [(0, ''a'', True), (0, ''b'', False), (0, ''a'', True), (0, ''a'', True)]
   \<and> odd (toggledTimes ''a''
        [(0, ''a'', True), (0, ''b'', False), (0, ''a'', True), (0, ''a'', True)])
   \<and> ''a'' \<in> set (selectedVideos (mem
        (toggleCalls small_json [] fresh
           [(0, ''a'', True), (0, ''b'', False), (0, ''a'', True), (0, ''a'', True)])))
   \<and> distinct (selectedVideos (mem
        (toggleCalls small_json [] fresh
           (take 2 [(0, ''a'', True), (0, ''b'', False), (0, ''a'', True), (0, ''a'', True)]))))"
proof -
  have h: "distinct (selectedVideos (mem fresh))"
    by (simp add: fresh_def load_defs storage_defs all_reads_def)
  have a: "''a'' \<notin> set (selectedVideos (mem fresh))"
    by (simp add: fresh_def load_defs storage_defs all_reads_def)
  have c: "currentRenders [(0, ''a'', True), (0, ''b'', False), (0, ''a'', True), (0, ''a'', True)]"
    by (simp add: currentRenders_def)
  have o: "odd (toggledTimes ''a''
             [(0, ''a'', True), (0, ''b'', False), (0, ''a'', True), (0, ''a'', True)])"
    by (simp add: toggledTimes_def)
  show ?thesis
    using h a c o
      toggle_parity [OF h, of "[(0, ''a'', True), (0, ''b'', False), (0, ''a'', True), (0, ''a'', True)]"
        small_json "''a''"]
    by (simp del: toggleCalls.simps take_Cons_numeral)
qed

subsection \<open>Writes that fail\<close>

lemma filter_changes:
  assumes v: "v \<in> set xs"
  shows "filter (\<lambda>i. i \<noteq> v) xs \<noteq> xs"
proof
  assume eq: "filter (\<lambda>i. i \<noteq> v) xs = xs"
  have "v \<notin> set (filter (\<lambda>i. i \<noteq> v) xs)"
    by simp
  with v eq show False
    by simp
qed

text \<open>
  Claim C6 holds for \<^verbatim>\<open>savePin\<close> only. When the write is rejected, \<^verbatim>\<open>savePin\<close> returns
  false and changes nothing; each of the two toggles throws, but has already replaced the
  selection (the restricted-mode flag) in the provider's state, which from then on
  differs from what the storage holds.
\<close>

theorem failed_write_keeps_toggle:
  "savePin False p w = (False, w)
   \<and> fst (toggleVideoSelectionInContext J False v w) = Throws
   \<and> selectedVideos (mem (snd (toggleVideoSelectionInContext J False v w)))
       \<noteq> selectedVideos (mem w)
   \<and> disk (snd (toggleVideoSelectionInContext J False v w)) = disk w
   \<and> fst (toggleRestrictedMode False w) = Throws
   \<and> restrictedMode (mem (snd (toggleRestrictedMode False w))) \<noteq> restrictedMode (mem w)
   \<and> disk (snd (toggleRestrictedMode False w)) = disk w"
  by (simp add: op_defs storage_defs Let_def filter_changes)

section \<open>Properties of the feed screen\<close>

lemmas screen_defs = handleVideoError_def retryVideo_def performPlayback_start_def
  performPlayback_finish_def performPlayback_timeout_def handleVideoPlayback_def
  onPlaybackStatusUpdate_def onError_def property_def Object_prototype_def

subsection \<open>The selection gate\<close>

text \<open>
  The guard on a purchase in progress never meets a request: in the renders in which
  the flag is set the screen shows no list, and so no select control.
\<close>

lemma purchase_guard:
  "isSimulatingPurchase st \<Longrightarrow>
     handleToggleVideoSelection J ok st v w = (Ignored, w)
     \<and> ForYouScreen_view s st = LoadingScreen"
  by (simp add: handleToggleVideoSelection_def ForYouScreen_view_def)

text \<open>
  Claim C1. For every selection request, that is, every press of a select control of
  the list the screen shows: a request on a selected id removes it, whatever the number
  of selected ids and the entitlement; a request on an id that is not selected appends
  it if fewer than 5 ids are selected or premium is unlocked; with 5 or more selected
  and no premium the selection and the storage stay as they are and the upgrade alert is
  raised.
\<close>

theorem selection_gate:
  assumes "ForYouScreen_view (mem w) st = VideoList"
  shows "(v \<in> set (selectedVideos (mem w)) \<longrightarrow>
            fst (handleToggleVideoSelection J ok st v w) = Toggled
            \<and> selectedVideos (mem (snd (handleToggleVideoSelection J ok st v w)))
                = filter (\<lambda>i. i \<noteq> v) (selectedVideos (mem w))
            \<and> v \<notin> set (selectedVideos (mem (snd (handleToggleVideoSelection J ok st v w)))))
       \<and> (v \<notin> set (selectedVideos (mem w))
            \<and> (length (selectedVideos (mem w)) < 5 \<or> hasSimulatedPremium st) \<longrightarrow>
            fst (handleToggleVideoSelection J ok st v w) = Toggled
            \<and> selectedVideos (mem (snd (handleToggleVideoSelection J ok st v w)))
                = selectedVideos (mem w) @ [v])
       \<and> (v \<notin> set (selectedVideos (mem w))
            \<and> 5 \<le> length (selectedVideos (mem w)) \<and> \<not> hasSimulatedPremium st \<longrightarrow>
            handleToggleVideoSelection J ok st v w = (UnlockPremiumAlert, w))"
proof -
  have "\<not> isSimulatingPurchase st"
    using assms by (auto simp: ForYouScreen_view_def split: if_splits)
  then show ?thesis
    by (auto simp: handleToggleVideoSelection_def MAX_FREE_SELECTIONS_def toggle_mem Let_def)
qed

theorem selection_gate_witness:
  "ForYouScreen_view (mem five_selected) idle = VideoList
   \<and> ForYouScreen_view (mem five_selected) premium = VideoList
   \<and> selectedVideos (mem five_selected) = [''a'', ''b'', ''c'', ''d'', ''e'']
   \<and> selectedVideos (mem (snd (handleToggleVideoSelection small_json True idle ''c'' five_selected)))
       = [''a'', ''b'', ''d'', ''e'']
   \<and> handleToggleVideoSelection small_json True idle ''f'' five_selected
       = (UnlockPremiumAlert, five_selected)
   \<and> selectedVideos (mem (snd (handleToggleVideoSelection small_json True premium ''f'' five_selected)))
       = [''a'', ''b'', ''c'', ''d'', ''e'', ''f'']"
proof -
  have s: "selectedVideos (mem five_selected) = [''a'', ''b'', ''c'', ''d'', ''e'']"
    and l: "\<not> isLoading (mem five_selected)"
    by (simp_all add: five_selected_def fresh_def op_defs load_defs storage_defs all_reads_def
          Let_def)
  have i: "ForYouScreen_view (mem five_selected) idle = VideoList"
    using l by (simp add: ForYouScreen_view_def idle_def)
  have p: "ForYouScreen_view (mem five_selected) premium = VideoList"
    using l by (simp add: ForYouScreen_view_def premium_def idle_def)
  have np: "\<not> hasSimulatedPremium idle" and yp: "hasSimulatedPremium premium"
    by (simp_all add: premium_def idle_def)
  show ?thesis
    using s i p np yp
      selection_gate [OF i, of "''c''" small_json True]
      selection_gate [OF i, of "''f''" small_json True]
      selection_gate [OF p, of "''f''" small_json True]
    by simp
qed

subsection \<open>Retrying\<close>

text \<open>
  \<^verbatim>\<open>retryVideo\<close> deletes the counter of the id, so whatever happened before, a failed
  attempt that follows a retry leaves the counter at 1.
\<close>

lemma count_after_retry:
  "v \<notin> Object_prototype \<Longrightarrow>
     retryAttempts (failedAttempt (retryVideo v st)) v = Some (Number 1)"
  by (simp add: failedAttempt_def retryVideo_def performPlayback_start_def
        performPlayback_finish_def handleVideoError_def property_def Let_def
      split: option.splits)

text \<open>
  An item whose id names a member of \<^verbatim>\<open>Object.prototype\<close> counts as errored and out
  of retries from the start, and an error turns its counter into a string.
\<close>

lemma prototype_named_item:
  "renderVideoItem idle \<lparr>video_id = ''constructor'', video_url = ''https://v/c.mp4''\<rparr>
     = Some MaxRetriesText
   \<and> retryAttempts (onError ''constructor'' ''decode'' idle) ''constructor'' = Some Text"
  by (simp add: renderVideoItem_def canRetry_def idle_def onError_def handleVideoError_def
        property_def Object_prototype_def)

text \<open>
  Claim C2 fails on the code. On item \<open>b\<close>: the first attempt fails, the retry
  control is pressed and the second attempt fails, the retry control is pressed and the
  third attempt fails. After each failure the error is recorded, but the counter is 1,
  not 3, and the item still shows the retry control; pressing it calls \<^verbatim>\<open>retryVideo\<close>,
  which removes the error entry and the counter and sets the play intent.
\<close>

theorem retry_not_capped:
  "videoErrors failed_once ''b'' = Some ''Network error''
   \<and> renderVideoItem failed_once item_b = Some RetryButton
   \<and> videoErrors failed_twice ''b'' = Some ''Network error''
   \<and> renderVideoItem failed_twice item_b = Some RetryButton
   \<and> videoErrors failed_thrice ''b'' = Some ''Network error''
   \<and> retryAttempts failed_thrice ''b'' = Some (Number 1)
   \<and> videoToPlayIntent failed_thrice = None
   \<and> renderVideoItem failed_thrice item_b = Some RetryButton
   \<and> videoErrors (retryVideo ''b'' failed_thrice) ''b'' = None
   \<and> retryAttempts (retryVideo ''b'' failed_thrice) ''b'' = None
   \<and> videoToPlayIntent (retryVideo ''b'' failed_thrice) = Some ''b''"
  by (simp add: failed_thrice_def failed_twice_def failed_once_def failedAttempt_def
        b_requested_def idle_def item_b_def screen_defs renderVideoItem_def canRetry_def
        MAX_RETRY_ATTEMPTS_def)

subsection \<open>A request that supersedes a pending one\<close>

lemma start_pending:
  assumes "performPlayback_start st = (st', Some a)"
  shows "\<exists>v. videoToPlayIntent st = Some v \<and> attempt_videoId a = v \<and> attempt_render a = st
           \<and> st' = st\<lparr>videoErrors := (videoErrors st)(v := None), currentlyPlaying := Some v\<rparr>"
  using assms
  by (auto simp: performPlayback_start_def Let_def split: option.splits if_splits)

lemma b_pending_start: "performPlayback_start b_requested = (b_pending, Some attempt_b)"
  by (simp add: b_pending_def attempt_b_def b_requested_def idle_def screen_defs)

lemma a_pending_start:
  "performPlayback_start (handleVideoPlayback True (EngineStatus False False) ''a'' b_pending)
     = (a_pending, Some attempt_a)"
  by (simp add: a_pending_def attempt_a_def a_requested_def b_pending_def b_requested_def
        idle_def screen_defs)

text \<open>
  Claim C3, as stated, fails: nothing cancels the attempt for \<open>b\<close> when \<open>a\<close> is
  requested. When the load of \<open>b\<close> fails afterwards, an error is recorded for \<open>b\<close>,
  and the play intent, which by then is \<open>a\<close>, is cleared.
\<close>

theorem superseded_attempt_counterexample:
  "performPlayback_start b_requested = (b_pending, Some attempt_b)
   \<and> videoToPlayIntent a_pending = Some ''a'' \<and> currentlyPlaying a_pending = Some ''a''
   \<and> videoErrors a_pending ''b'' = None
   \<and> videoErrors (performPlayback_finish attempt_b (EngineThrows ''Network error'') a_pending)
        ''b'' = Some ''Network error''
   \<and> videoToPlayIntent
        (performPlayback_finish attempt_b (EngineThrows ''Network error'') a_pending) = None"
  by (simp add: a_pending_def a_requested_def b_pending_def attempt_b_def b_requested_def
        idle_def screen_defs)

text \<open>
  Claim C3, amended. Let \<open>B\<close> be requested while it is not the currently playing id,
  let it be pending, and let a play request for a different id \<open>A\<close> arrive while
  online; then the play intent and the currently playing id are \<open>A\<close> and \<open>B\<close> has
  no error. The attempt for \<open>B\<close> is not cancelled, and when it settles later: \<open>A\<close>
  stays the currently playing id, and the error entry and the retry count of \<open>A\<close> stay
  as they are; a load that succeeded changes nothing but the play intent; a load that
  failed, or the timeout, records an error for \<open>B\<close> and counts a retry attempt for
  \<open>B\<close>; and the end of the load, failed or not, clears the play intent.
\<close>

theorem superseded_attempt:
  assumes AB: "A \<noteq> B"
    and B: "videoToPlayIntent st0 = Some B"
    and notPlaying: "currentlyPlaying st0 \<noteq> Some B"
    and startB: "performPlayback_start st0 = (st1, Some attB)"
    and startA: "performPlayback_start (handleVideoPlayback True e A st1) = (st3, Some attA)"
  shows "videoToPlayIntent st3 = Some A \<and> currentlyPlaying st3 = Some A
       \<and> videoErrors st3 B = None
       \<and> videoErrors (performPlayback_finish attB (EngineThrows m) st3) B
           = Some (if m = [] then ''An unknown video error occurred'' else m)
       \<and> retryAttempts (performPlayback_finish attB (EngineThrows m) st3) B
           = Some (case retryAttempts st3 B of
                     Some (Number n) \<Rightarrow> Number (Suc n)
                   | Some Text \<Rightarrow> Text
                   | None \<Rightarrow> if B \<in> Object_prototype then Text else Number 1)
       \<and> videoErrors (performPlayback_finish attB (EngineStatus False p) st3) B
           = Some ''Failed to load video content.''
       \<and> retryAttempts (performPlayback_finish attB (EngineStatus False p) st3) B
           = Some (case retryAttempts st3 B of
                     Some (Number n) \<Rightarrow> Number (Suc n)
                   | Some Text \<Rightarrow> Text
                   | None \<Rightarrow> if B \<in> Object_prototype then Text else Number 1)
       \<and> videoErrors (performPlayback_timeout attB st3) B = Some ''Video loading timed out.''
       \<and> retryAttempts (performPlayback_timeout attB st3) B
           = Some (case retryAttempts st3 B of
                     Some (Number n) \<Rightarrow> Number (Suc n)
                   | Some Text \<Rightarrow> Text
                   | None \<Rightarrow> if B \<in> Object_prototype then Text else Number 1)
       \<and> performPlayback_finish attB (EngineStatus True p) st3
           = st3\<lparr>videoToPlayIntent := None\<rparr>
       \<and> videoToPlayIntent (performPlayback_finish attB c st3) = None
       \<and> currentlyPlaying (performPlayback_finish attB c st3) = Some A
       \<and> currentlyPlaying (performPlayback_timeout attB st3) = Some A
       \<and> videoErrors (performPlayback_finish attB c st3) A = videoErrors st3 A
       \<and> videoErrors (performPlayback_timeout attB st3) A = videoErrors st3 A
       \<and> retryAttempts (performPlayback_finish attB c st3) A = retryAttempts st3 A
       \<and> retryAttempts (performPlayback_timeout attB st3) A = retryAttempts st3 A"
proof -
  from start_pending [OF startB] B
  have b: "attempt_videoId attB = B" "attempt_render attB = st0"
    and st1: "st1 = st0\<lparr>videoErrors := (videoErrors st0)(B := None), currentlyPlaying := Some B\<rparr>"
    by auto
  have req: "handleVideoPlayback True e A st1 = st1\<lparr>videoToPlayIntent := Some A\<rparr>"
    using AB by (simp add: handleVideoPlayback_def st1)
  from start_pending [OF startA] req
  have st3: "st3 = st1\<lparr>videoToPlayIntent := Some A, videoErrors := (videoErrors st1)(A := None),
                      currentlyPlaying := Some A\<rparr>"
    by auto
  have count: "incremented (property (retryAttempts st0) B)
      = (case retryAttempts st0 B of
           Some (Number n) \<Rightarrow> Number (Suc n)
         | Some Text \<Rightarrow> Text
         | None \<Rightarrow> if B \<in> Object_prototype then Text else Number 1)"
    by (simp add: property_def split: option.splits attempts.splits)
  show ?thesis
    using AB B notPlaying
    by (cases c)
      (simp_all add: st3 st1 b count performPlayback_finish_def performPlayback_timeout_def
         handleVideoError_def Let_def)
qed

theorem superseded_attempt_witness:
  "videoToPlayIntent b_requested = Some ''b''
   \<and> currentlyPlaying b_requested \<noteq> Some ''b''
   \<and> videoErrors (performPlayback_timeout attempt_b a_pending) ''b''
       = Some ''Video loading timed out.''
   \<and> retryAttempts (performPlayback_finish attempt_b (EngineThrows ''Network error'') a_pending)
        ''b'' = Some (Number 1)
   \<and> currentlyPlaying (performPlayback_timeout attempt_b a_pending) = Some ''a''"
proof -
  have ab: "''a'' \<noteq> ''b''"
    by simp
  have b: "videoToPlayIntent b_requested = Some ''b''"
    and n: "currentlyPlaying b_requested \<noteq> Some ''b''"
    by (simp_all add: b_requested_def idle_def screen_defs)
  have r: "retryAttempts a_pending ''b'' = None"
    by (simp add: a_pending_def a_requested_def b_pending_def b_requested_def idle_def
          screen_defs)
  have o: "''b'' \<notin> Object_prototype"
    by (simp add: Object_prototype_def)
  show ?thesis
    using b n r o
      superseded_attempt [OF ab b n b_pending_start a_pending_start,
        where m = "''Network error''" and c = "EngineThrows ''Network error''"]
    by simp
qed

subsection \<open>Playing and errored at once\<close>

text \<open>
  Where the handler belongs to the render of the current state, recording an error for
  the item that is playing clears \<open>currentlyPlaying\<close>.
\<close>

lemma handleVideoError_current_render:
  "currentlyPlaying (handleVideoError st v m st) \<noteq> Some v
   \<and> (currentlyPlaying st \<noteq> Some v \<longrightarrow>
        currentlyPlaying (handleVideoError st v m st) = currentlyPlaying st)"
  by (simp add: handleVideoError_def Let_def)

text \<open>
  Claim C7 fails on the path through \<^verbatim>\<open>performPlayback\<close>. From the idle screen, a tap
  on \<open>b\<close> starts an attempt whose \<^verbatim>\<open>handleVideoError\<close> belongs to the render before
  \<^verbatim>\<open>setCurrentlyPlaying(videoId)\<close>; in that render \<open>currentlyPlaying\<close> is null. When
  the load fails, the error is recorded and \<open>currentlyPlaying\<close> is left at \<open>b\<close>.
\<close>

theorem playing_and_errored:
  "performPlayback_start b_requested = (b_pending, Some attempt_b)
   \<and> currentlyPlaying
        (performPlayback_finish attempt_b (EngineThrows ''Network error'') b_pending)
       = Some ''b''
   \<and> videoErrors
        (performPlayback_finish attempt_b (EngineThrows ''Network error'') b_pending) ''b''
       = Some ''Network error''"
  by (simp add: b_pending_def attempt_b_def b_requested_def idle_def screen_defs)

end
